theory Spec2Isabelle
  imports Main "HOL-Library.Word"
begin

unbundle bit_operations_syntax

section \<open>Machine types of the target\<close>

text \<open>
  The target is a 32-bit machine. A C++ \<open>int\<close> is a 32-bit word read in two's complement
  (\<open>sint\<close>), \<open>size_t\<close> is a 32-bit word read unsigned (\<open>uint\<close>), the wait-control
  register is 16 bits wide and a byte is 8 bits. The cast \<open>int(sizeof(Type))\<close> keeps the
  bits and changes the reading, so it does not appear as a function: the same word is read
  with \<open>sint\<close>. Addition on \<open>int\<close> is the word addition of the target, which wraps
  around (C++ itself leaves signed overflow undefined).
\<close>

type_synonym byte = "8 word"
type_synonym cint = "32 word"
type_synonym size_t = "32 word"
type_synonym u16 = "16 word"

section \<open>Build-time configuration\<close>

text \<open>
  The headers \<open>bn_hw_sram_constants.h\<close>, \<open>bn_config_sram.h\<close> and \<open>bn_hw_tonc.h\<close> fix
  the device size, the configured wait-state code, the four legal codes and the place of
  the wait-state field in the wait-control register. They are configuration inputs of the
  layer and are taken as parameters here.
\<close>

record config =
  hw_sram_size :: cint
  BN_CFG_SRAM_WAIT_STATE :: u16
  BN_SRAM_WAIT_STATE_4 :: u16
  BN_SRAM_WAIT_STATE_3 :: u16
  BN_SRAM_WAIT_STATE_2 :: u16
  BN_SRAM_WAIT_STATE_8 :: u16
  WS_SRAM_MASK :: u16

text \<open>The \<open>static_assert\<close> at namespace scope of \<open>bn_hw_sram.cpp\<close>.\<close>

definition wait_state_static_assert :: "config \<Rightarrow> bool" where
  "wait_state_static_assert cfg =
     (BN_CFG_SRAM_WAIT_STATE cfg = BN_SRAM_WAIT_STATE_4 cfg \<or>
      BN_CFG_SRAM_WAIT_STATE cfg = BN_SRAM_WAIT_STATE_3 cfg \<or>
      BN_CFG_SRAM_WAIT_STATE cfg = BN_SRAM_WAIT_STATE_2 cfg \<or>
      BN_CFG_SRAM_WAIT_STATE cfg = BN_SRAM_WAIT_STATE_8 cfg)"

text \<open>
  The configuration of the spec's concrete scenario: a device of 32768 bytes, the codes
  0, 1, 2, 3 for 4, 3, 2 and 8 wait cycles in the two low bits of the register, and 2
  cycles configured.
\<close>

definition scenario_config :: config where
  "scenario_config =
     \<lparr>hw_sram_size = 32768,
      BN_CFG_SRAM_WAIT_STATE = 2,
      BN_SRAM_WAIT_STATE_4 = 0,
      BN_SRAM_WAIT_STATE_3 = 1,
      BN_SRAM_WAIT_STATE_2 = 2,
      BN_SRAM_WAIT_STATE_8 = 3,
      WS_SRAM_MASK = 3\<rparr>"

section \<open>The identification token\<close>

text \<open>
  \<open>alignas(int) __attribute__((used)) const char save_type[] = "SRAM_V113"\<close> in
  \<open>bn_hw_sram.cpp\<close>: the characters with the terminating null of the string literal, the
  alignment asked for (that of \<open>int\<close>, 4 bytes on the target), and the two properties of
  the declaration that ask the toolchain to keep the object and to keep it read-only.
\<close>

record static_object =
  chars :: string
  alignment :: nat
  used :: bool
  is_const :: bool

definition save_type :: static_object where
  "save_type = \<lparr>chars = ''SRAM_V113'' @ [CHR 0x00], alignment = 4, used = True, is_const = True\<rparr>"

section \<open>Machine state\<close>

text \<open>
  The state the layer acts on: the wait-control register, the bytes on the storage bus
  (indexed by the offset from the start of the device, so the device itself is the window
  from 0 up to its size) and the record of the hardware accesses performed so far, in
  order. An access is a store to the wait-control register or one call of a raw copy
  primitive with its size and offset arguments. The state also holds the object that the
  program image carries under the name \<open>save_type\<close>; the image is a memory of its own,
  apart from the storage bus.
\<close>

datatype access =
  Reg_write u16
  | Copy_from_storage cint cint
  | Copy_to_storage cint cint

record machine =
  REG_WAITCNT_NV :: u16
  sram :: "int \<Rightarrow> byte"
  accesses :: "access list"
  program_image :: static_object

text \<open>The machine after reset, with the image as it was built.\<close>

definition reset_machine :: machine where
  "reset_machine =
     \<lparr>REG_WAITCNT_NV = 0, sram = (\<lambda>a. 0), accesses = [], program_image = save_type\<rparr>"

section \<open>Failures\<close>

text \<open>
  An operation ends with a value or with a failure, and in both cases leaves a machine
  state behind. A failed \<open>static_assert\<close> rejects the instantiation at build time; a
  failed \<open>BN_ASSERT\<close> halts the program with its message, whose pieces are texts and
  the values of the operands given to the macro.
\<close>

datatype piece = Text string | Num int

datatype failure = Static_assert_failed string | Assert_failed "piece list"

type_synonym 'a outcome = "failure + 'a"

definition static_assert :: "bool \<Rightarrow> string \<Rightarrow> failure option" where
  "static_assert condition message =
     (if condition then None else Some (Static_assert_failed message))"

text \<open>
  Modelled from the spec: the macro \<open>BN_ASSERT\<close> comes from \<open>bn_assert.h\<close>, which is
  not among the sources. By the spec a violated bound is a fatal assertion at the call
  site, reported with the offending operands, and halts execution.
\<close>

definition BN_ASSERT :: "bool \<Rightarrow> piece list \<Rightarrow> failure option" where
  "BN_ASSERT condition message =
     (if condition then None else Some (Assert_failed message))"

text \<open>
  One statement of a function body that may stop it: on a failure the function ends there
  with the machine as it is, otherwise the rest of the body runs.
\<close>

definition checked ::
  "failure option \<Rightarrow> machine \<Rightarrow> 'a outcome \<times> machine \<Rightarrow> 'a outcome \<times> machine" where
  "checked assertion m rest = (case assertion of Some f \<Rightarrow> (Inl f, m) | None \<Rightarrow> rest)"

section \<open>Types instantiating the templates\<close>

text \<open>
  A template argument \<open>Type\<close> is known to the layer by \<open>sizeof(Type)\<close> and by
  \<open>is_trivially_copyable<Type>()\<close>; a value of the type is its object representation,
  \<open>sizeof(Type)\<close> bytes.
\<close>

record ctype =
  sizeof :: size_t
  is_trivially_copyable :: bool

definition has_type :: "byte list \<Rightarrow> ctype \<Rightarrow> bool" where
  "has_type v T = (length v = unat (sizeof T))"

section \<open>The raw copy primitives\<close>

text \<open>
  \<open>_bn::sram::unsafe_read\<close> and \<open>_bn::sram::unsafe_write\<close> are only declared in
  \<open>bn_sram.h\<close>; their bodies are not among the sources. The spec gives them as the
  capabilities \<open>copy_from_storage(destination_buffer, byte_count, device_offset)\<close> and
  \<open>copy_to_storage(source_buffer, byte_count, device_offset)\<close>, which perform the
  requested byte transfer unconditionally, byte for byte, and validate nothing.
\<close>

text \<open>
  Modelled from the spec: the transfer of \<open>n\<close> bytes out of the storage, starting at
  address \<open>a\<close>; the body of \<open>unsafe_read\<close> is missing.
\<close>

primrec copy_from_storage :: "nat \<Rightarrow> int \<Rightarrow> (int \<Rightarrow> byte) \<Rightarrow> byte list" where
  "copy_from_storage 0 a mem = []"
| "copy_from_storage (Suc n) a mem = mem a # copy_from_storage n (a + 1) mem"

text \<open>
  Modelled from the spec: the transfer of the given bytes into the storage, starting at
  address \<open>a\<close>; the body of \<open>unsafe_write\<close> is missing.
\<close>

primrec copy_to_storage :: "byte list \<Rightarrow> int \<Rightarrow> (int \<Rightarrow> byte) \<Rightarrow> (int \<Rightarrow> byte)" where
  "copy_to_storage [] a mem = mem"
| "copy_to_storage (b # bs) a mem = copy_to_storage bs (a + 1) (mem(a := b))"

text \<open>
  Modelled from the spec: \<open>unsafe_read(destination, size, offset)\<close>, whose body is
  missing. It overwrites the first \<open>size\<close> bytes of the destination with the bytes of
  the storage from \<open>offset\<close> on, checks nothing, and is recorded as one access.
\<close>

definition unsafe_read :: "byte list \<Rightarrow> cint \<Rightarrow> cint \<Rightarrow> machine \<Rightarrow> byte list \<times> machine" where
  "unsafe_read destination size_arg offset m =
     (copy_from_storage (nat (sint size_arg)) (sint offset) (sram m)
        @ drop (nat (sint size_arg)) destination,
      m\<lparr>accesses := accesses m @ [Copy_from_storage size_arg offset]\<rparr>)"

text \<open>
  Modelled from the spec: \<open>unsafe_write(source, size, offset)\<close>, whose body is missing.
  It stores the first \<open>size\<close> bytes of the source into the storage from \<open>offset\<close> on,
  checks nothing, and is recorded as one access.
\<close>

definition unsafe_write :: "byte list \<Rightarrow> cint \<Rightarrow> cint \<Rightarrow> machine \<Rightarrow> machine" where
  "unsafe_write source size_arg offset m =
     m\<lparr>sram := copy_to_storage (take (nat (sint size_arg)) source) (sint offset) (sram m),
       accesses := accesses m @ [Copy_to_storage size_arg offset]\<rparr>"

section \<open>Macros\<close>

text \<open>
  Modelled from the spec: the macro \<open>BIT_SET\<close> comes from \<open>bn_hw_tonc.h\<close>, which is not
  among the sources. It is the bitwise OR of the flag into the word.
\<close>

definition BIT_SET :: "u16 \<Rightarrow> u16 \<Rightarrow> u16" where
  "BIT_SET w flag = w OR flag"

section \<open>bn::hw::sram\<close>

text \<open>
  \<open>init\<close> returns a pointer to \<open>save_type\<close>; what the caller finds behind it is the
  object as the program image holds it at the time of the call.
\<close>

definition init :: "config \<Rightarrow> machine \<Rightarrow> static_object \<times> machine" where
  "init cfg m =
     (let w = BIT_SET (REG_WAITCNT_NV m) (BN_CFG_SRAM_WAIT_STATE cfg)
      in (program_image m,
          m\<lparr>REG_WAITCNT_NV := w, accesses := accesses m @ [Reg_write w]\<rparr>))"

definition wait_state_field :: "config \<Rightarrow> u16 \<Rightarrow> u16" where
  "wait_state_field cfg w = w AND WS_SRAM_MASK cfg"

section \<open>bn::sram\<close>

definition size_sram :: "config \<Rightarrow> cint" where
  "size_sram cfg = hw_sram_size cfg"

definition read :: "config \<Rightarrow> ctype \<Rightarrow> byte list \<Rightarrow> machine \<Rightarrow> byte list outcome \<times> machine" where
  "read cfg T destination m =
     checked (static_assert (is_trivially_copyable T) ''Source is not trivially copyable'') m
    (checked (static_assert (sint (sizeof T) \<le> sint (size_sram cfg)) ''Source size is too high'') m
    (let (d, m') = unsafe_read destination (sizeof T) 0 m in (Inr d, m')))"

definition read_offset ::
  "config \<Rightarrow> ctype \<Rightarrow> byte list \<Rightarrow> cint \<Rightarrow> machine \<Rightarrow> byte list outcome \<times> machine" where
  "read_offset cfg T destination offset m =
     checked (static_assert (is_trivially_copyable T) ''Source is not trivially copyable'') m
    (checked (static_assert (sint (sizeof T) \<le> sint (size_sram cfg)) ''Source size is too high'') m
    (checked (BN_ASSERT (sint offset \<ge> 0) [Text ''Invalid offset: '', Num (sint offset)]) m
    (checked (BN_ASSERT (sint (sizeof T + offset) \<le> sint (size_sram cfg))
               [Text ''Source size and offset are too high: '', Num (uint (sizeof T)),
                Text '' - '', Num (sint offset)]) m
    (let (d, m') = unsafe_read destination (sizeof T) offset m in (Inr d, m')))))"

definition write_sram :: "config \<Rightarrow> ctype \<Rightarrow> byte list \<Rightarrow> machine \<Rightarrow> unit outcome \<times> machine" where
  "write_sram cfg T source m =
     checked (static_assert (is_trivially_copyable T) ''Source is not trivially copyable'') m
    (checked (static_assert (sint (sizeof T) \<le> sint (size_sram cfg)) ''Source size is too high'') m
    (Inr (), unsafe_write source (sizeof T) 0 m))"

definition write_offset ::
  "config \<Rightarrow> ctype \<Rightarrow> byte list \<Rightarrow> cint \<Rightarrow> machine \<Rightarrow> unit outcome \<times> machine" where
  "write_offset cfg T source offset m =
     checked (static_assert (is_trivially_copyable T) ''Source is not trivially copyable'') m
    (checked (static_assert (sint (sizeof T) \<le> sint (size_sram cfg)) ''Source size is too high'') m
    (checked (BN_ASSERT (sint offset \<ge> 0) [Text ''Invalid offset: '', Num (sint offset)]) m
    (checked (BN_ASSERT (sint (sizeof T + offset) \<le> sint (size_sram cfg))
               [Text ''Source size and offset are too high: '', Num (uint (sizeof T)),
                Text '' - '', Num (sint offset)]) m
    (Inr (), unsafe_write source (sizeof T) offset m))))"

section \<open>Concrete inputs and the bound of the device\<close>

text \<open>A four-byte trivially copyable type, such as \<open>uint32_t\<close> or \<open>int\<close>.\<close>

definition uint32_type :: ctype where
  "uint32_type = \<lparr>sizeof = 4, is_trivially_copyable = True\<rparr>"

text \<open>
  The bound invariant of an access window: the range of \<open>size_arg\<close> bytes at \<open>offset\<close>
  lies inside the device. A store to the register has no range.
\<close>

definition in_bounds :: "config \<Rightarrow> cint \<Rightarrow> cint \<Rightarrow> bool" where
  "in_bounds cfg size_arg offset =
     (0 \<le> sint offset \<and> sint offset + sint size_arg \<le> sint (size_sram cfg))"

fun access_in_bounds :: "config \<Rightarrow> access \<Rightarrow> bool" where
  "access_in_bounds cfg (Reg_write w) = True"
| "access_in_bounds cfg (Copy_from_storage size_arg offset) = in_bounds cfg size_arg offset"
| "access_in_bounds cfg (Copy_to_storage size_arg offset) = in_bounds cfg size_arg offset"

section \<open>Programs over the layer\<close>

text \<open>
  A caller is a sequence of calls of the layer's functions. Each call returns a value or
  fails; a failure ends the program at that call (the instantiation does not build, or
  the assertion halts the machine), so no later call runs. \<open>size\<close> is \<open>constexpr\<close> with
  no parameter: its call evaluates \<open>size_sram\<close> and touches nothing.
\<close>

datatype call =
  Init_call
  | Size_call
  | Read_call ctype "byte list"
  | Read_offset_call ctype "byte list" cint
  | Write_call ctype "byte list"
  | Write_offset_call ctype "byte list" cint

datatype returned = Token static_object | Size_value cint | Bytes "byte list" | Void

fun perform :: "config \<Rightarrow> call \<Rightarrow> machine \<Rightarrow> returned outcome \<times> machine" where
  "perform cfg Init_call m = (Inr (Token (fst (init cfg m))), snd (init cfg m))"
| "perform cfg Size_call m = (Inr (Size_value (size_sram cfg)), m)"
| "perform cfg (Read_call T destination) m =
     (map_sum id Bytes (fst (read cfg T destination m)), snd (read cfg T destination m))"
| "perform cfg (Read_offset_call T destination offset) m =
     (map_sum id Bytes (fst (read_offset cfg T destination offset m)),
      snd (read_offset cfg T destination offset m))"
| "perform cfg (Write_call T source) m =
     (map_sum id (\<lambda>u. Void) (fst (write_sram cfg T source m)), snd (write_sram cfg T source m))"
| "perform cfg (Write_offset_call T source offset) m =
     (map_sum id (\<lambda>u. Void) (fst (write_offset cfg T source offset m)),
      snd (write_offset cfg T source offset m))"

fun run :: "config \<Rightarrow> call list \<Rightarrow> machine \<Rightarrow> returned outcome list \<times> machine" where
  "run cfg [] m = ([], m)"
| "run cfg (c # cs) m =
     (if isl (fst (perform cfg c m)) then ([fst (perform cfg c m)], snd (perform cfg c m))
      else (fst (perform cfg c m) # fst (run cfg cs (snd (perform cfg c m))),
            snd (run cfg cs (snd (perform cfg c m)))))"

text \<open>The results of a program that come from calls of \<open>size\<close>, and those from \<open>init\<close>.\<close>

fun is_size_value :: "returned outcome \<Rightarrow> bool" where
  "is_size_value (Inr (Size_value v)) = True"
| "is_size_value r = False"


section \<open>The byte copies\<close>

lemma copy_to_storage_apply:
  "copy_to_storage bs a mem x =
     (if a \<le> x \<and> x < a + int (length bs) then bs ! nat (x - a) else mem x)"
proof (induction bs arbitrary: a mem)
  case Nil
  then show ?case by auto
next
  case (Cons b bs)
  have step: "copy_to_storage (b # bs) a mem x =
      (if a + 1 \<le> x \<and> x < a + 1 + int (length bs) then bs ! nat (x - (a + 1))
       else (mem(a := b)) x)"
    by (simp add: Cons.IH)
  show ?case
  proof (cases "x = a")
    case True
    then show ?thesis unfolding step by simp
  next
    case False
    have "a + 1 \<le> x \<Longrightarrow> nat (x - a) = Suc (nat (x - (a + 1)))" by simp
    with False show ?thesis unfolding step by auto
  qed
qed

lemma copy_from_storage_nth:
  "copy_from_storage n a mem = map (\<lambda>i. mem (a + int i)) [0..<n]"
proof (induction n arbitrary: a)
  case 0
  then show ?case by simp
next
  case (Suc n)
  have "[0..<Suc n] = 0 # map Suc [0..<n]"
    by (simp add: upt_conv_Cons map_Suc_upt del: upt_Suc)
  then show ?case by (simp add: Suc.IH comp_def add.assoc del: upt_Suc)
qed

lemma copy_round_trip:
  "copy_from_storage (length bs) a (copy_to_storage bs a mem) = bs"
  by (rule nth_equalityI) (simp_all add: copy_from_storage_nth copy_to_storage_apply)

section \<open>Signed arithmetic without overflow\<close>

lemma sint_add_exact:
  fixes a b :: cint
  assumes "- (2 ^ 31) \<le> sint a + sint b" "sint a + sint b < 2 ^ 31"
  shows "sint (a + b) = sint a + sint b"
  using assms by (simp add: sint_word_ariths signed_take_bit_int_eq_self)

lemma sint_eq_uint_small:
  fixes s :: size_t
  assumes "uint s < 2 ^ 31"
  shows "sint s = uint s"
proof -
  have "signed_take_bit 31 (uint s) = uint s"
  proof (rule signed_take_bit_int_eq_self)
    have "- (2 ^ 31) \<le> (0::int)" by simp
    also have "0 \<le> uint s" by simp
    finally show "- (2 ^ 31) \<le> uint s" .
    show "uint s < 2 ^ 31" by (rule assms)
  qed
  then show ?thesis by (simp add: sint_uint)
qed

lemma nat_sint_sizeof:
  fixes s :: size_t
  assumes "uint s < 2 ^ 31"
  shows "nat (sint s) = unat s"
  using assms by (simp add: sint_eq_uint_small)

lemma checked_sum_exact:
  fixes s :: size_t and offset :: cint
  assumes "0 \<le> sint offset" "sint offset + uint s < 2 ^ 31"
  shows "sint (s + offset) = uint s + sint offset"
proof -
  have small: "uint s < 2 ^ 31" using assms by simp
  have "sint (s + offset) = sint s + sint offset"
  proof (rule sint_add_exact)
    have "- (2 ^ 31) \<le> (0::int)" by simp
    also have "0 \<le> uint s + sint offset" using assms(1) by simp
    finally show "- (2 ^ 31) \<le> sint s + sint offset"
      by (simp add: sint_eq_uint_small [OF small])
    from assms(2) show "sint s + sint offset < 2 ^ 31"
      by (simp add: sint_eq_uint_small [OF small] add.commute)
  qed
  then show ?thesis by (simp add: sint_eq_uint_small [OF small])
qed

section \<open>Programs: what a call can change or return\<close>

lemmas assertion_defs = checked_def static_assert_def BN_ASSERT_def



text \<open>
  Only a call of \<open>size\<close> returns a size, and only a call of \<open>init\<close> returns a token.
\<close>

lemma perform_size_value:
  "is_size_value (fst (perform cfg c m)) = (c = Size_call)"
proof (cases c)
  case (Read_call T d)
  then show ?thesis by (cases "fst (read cfg T d m)") simp_all
next
  case (Read_offset_call T d off)
  then show ?thesis by (cases "fst (read_offset cfg T d off m)") simp_all
next
  case (Write_call T v)
  then show ?thesis by (cases "fst (write_sram cfg T v m)") simp_all
next
  case (Write_offset_call T v off)
  then show ?thesis by (cases "fst (write_offset cfg T v off m)") simp_all
qed simp_all


text \<open>
  Leaving the calls of \<open>size\<close> out of a program changes neither the machine it ends in
  nor the other results, and every size returned is the configured one.
\<close>

lemma run_without_size_calls:
  "snd (run cfg (filter (\<lambda>c. c \<noteq> Size_call) cs) m) = snd (run cfg cs m) \<and>
   fst (run cfg (filter (\<lambda>c. c \<noteq> Size_call) cs) m)
     = filter (\<lambda>r. \<not> is_size_value r) (fst (run cfg cs m))"
proof (induction cs arbitrary: m)
  case Nil
  show ?case by simp
next
  case (Cons c cs)
  show ?case
  proof (cases "c = Size_call")
    case True
    then show ?thesis using Cons.IH [of m] by simp
  next
    case False
    then have "\<not> is_size_value (fst (perform cfg c m))" by (simp add: perform_size_value)
    with False show ?thesis using Cons.IH [of "snd (perform cfg c m)"] by simp
  qed
qed

lemma run_size_values:
  "list_all (\<lambda>r. r = Inr (Size_value (hw_sram_size cfg)))
     (filter is_size_value (fst (run cfg cs m)))"
proof (induction cs arbitrary: m)
  case Nil
  show ?case by simp
next
  case (Cons c cs)
  show ?case
  proof (cases "c = Size_call")
    case True
    then show ?thesis using Cons.IH [of m] by (simp add: size_sram_def)
  next
    case False
    then have "\<not> is_size_value (fst (perform cfg c m))" by (simp add: perform_size_value)
    then show ?thesis using Cons.IH [of "snd (perform cfg c m)"] by simp
  qed
qed


section \<open>Round trip\<close>

text \<open>
  Claim C1. For every trivially copyable type and every offset with \<open>0 \<le> offset\<close> and
  \<open>offset + sizeof(Type) \<le> size()\<close>, \<open>write_offset\<close> of a value succeeds and a
  following \<open>read_offset\<close> at the same offset succeeds and leaves in the destination
  exactly the bytes of the value, whatever the destination held before.
\<close>

theorem write_offset_read_offset_round_trip:
  assumes "is_trivially_copyable T" and "has_type v T" and "has_type destination T"
    and "0 \<le> sint offset" and "sint offset + uint (sizeof T) \<le> sint (size_sram cfg)"
  shows "fst (write_offset cfg T v offset m) = Inr () \<and>
         fst (read_offset cfg T destination offset (snd (write_offset cfg T v offset m))) = Inr v"
proof -
  have size_lt: "sint (size_sram cfg) < 2 ^ 31" using sint_lt [of "size_sram cfg"] by simp
  have small: "uint (sizeof T) < 2 ^ 31" using assms(4,5) size_lt by simp
  have sum: "sint (sizeof T + offset) = uint (sizeof T) + sint offset"
    using assms(4,5) size_lt by (intro checked_sum_exact) simp_all
  have fits: "sint (sizeof T) \<le> sint (size_sram cfg)"
    using assms(4,5) by (simp add: sint_eq_uint_small [OF small])
  have len: "nat (sint (sizeof T)) = length v" "nat (sint (sizeof T)) = length destination"
    using assms(2,3) by (simp_all add: has_type_def nat_sint_sizeof [OF small])
  have w: "write_offset cfg T v offset m = (Inr (), unsafe_write v (sizeof T) offset m)"
    using assms(1,4,5) fits sum by (simp add: assertion_defs write_offset_def)
  have r: "fst (read_offset cfg T destination offset (unsafe_write v (sizeof T) offset m)) =
      Inr (fst (unsafe_read destination (sizeof T) offset (unsafe_write v (sizeof T) offset m)))"
    using assms(1,4,5) fits sum by (simp add: assertion_defs read_offset_def split_beta)
  have "fst (unsafe_read destination (sizeof T) offset (unsafe_write v (sizeof T) offset m)) = v"
    by (simp add: unsafe_read_def unsafe_write_def len(2) [symmetric]) (simp add: len(1) copy_round_trip)
  with w r show ?thesis by simp
qed

text \<open>
  The scenario of the spec: on a device of 32768 bytes the four bytes of \<open>0xDEADBEEF\<close>
  written at offset 100 are read back.
\<close>

theorem write_offset_read_offset_round_trip_witness:
  "is_trivially_copyable uint32_type \<and>
   has_type [0xEF, 0xBE, 0xAD, 0xDE] uint32_type \<and> has_type [0, 0, 0, 0] uint32_type \<and>
   0 \<le> sint (100 :: cint) \<and>
   sint (100 :: cint) + uint (sizeof uint32_type) \<le> sint (size_sram scenario_config) \<and>
   fst (read_offset scenario_config uint32_type [0, 0, 0, 0] 100
      (snd (write_offset scenario_config uint32_type [0xEF, 0xBE, 0xAD, 0xDE] 100 reset_machine)))
   = Inr [0xEF, 0xBE, 0xAD, 0xDE]"
  using write_offset_read_offset_round_trip
    [of uint32_type "[0xEF, 0xBE, 0xAD, 0xDE]" "[0, 0, 0, 0]" 100 scenario_config reset_machine]
  by (simp add: uint32_type_def has_type_def scenario_config_def size_sram_def)

section \<open>Failed bound checks\<close>

text \<open>
  Claim C2, as the code has it by design. Take a type that passes the two static
  assertions. With a negative offset, \<open>read_offset\<close> and \<open>write_offset\<close> halt on the
  first \<open>BN_ASSERT\<close>, whose message reports the offset and nothing else. With an offset
  that is not negative, \<open>offset + sizeof(Type)\<close> above the size of the device and not
  above the largest \<open>int\<close>, they halt on the second \<open>BN_ASSERT\<close>, whose message
  reports \<open>sizeof(Type)\<close> and the offset. In both cases no primitive is called and the
  machine is left as it was: storage bytes, register and record of accesses.
\<close>

theorem failed_bound_check_halts_unchanged:
  assumes "is_trivially_copyable T" and "sint (sizeof T) \<le> sint (size_sram cfg)"
    and "sint offset < 0 \<or>
         (sint (size_sram cfg) < sint offset + uint (sizeof T) \<and>
          sint offset + uint (sizeof T) < 2 ^ 31)"
  shows "read_offset cfg T destination offset m =
           (Inl (Assert_failed
              (if sint offset < 0 then [Text ''Invalid offset: '', Num (sint offset)]
               else [Text ''Source size and offset are too high: '', Num (uint (sizeof T)),
                     Text '' - '', Num (sint offset)])), m) \<and>
         write_offset cfg T source offset m =
           (Inl (Assert_failed
              (if sint offset < 0 then [Text ''Invalid offset: '', Num (sint offset)]
               else [Text ''Source size and offset are too high: '', Num (uint (sizeof T)),
                     Text '' - '', Num (sint offset)])), m)"
proof (cases "sint offset < 0")
  case True
  with assms(1,2) show ?thesis by (simp add: assertion_defs read_offset_def write_offset_def)
next
  case False
  with assms(3) have high: "sint (size_sram cfg) < sint offset + uint (sizeof T)"
    and no_overflow: "sint offset + uint (sizeof T) < 2 ^ 31" by simp_all
  from False have "0 \<le> sint offset" by simp
  then have "sint (sizeof T + offset) = uint (sizeof T) + sint offset"
    using no_overflow by (rule checked_sum_exact)
  with high have "\<not> sint (sizeof T + offset) \<le> sint (size_sram cfg)" by simp
  with False assms(1,2) show ?thesis by (simp add: assertion_defs read_offset_def write_offset_def)
qed

text \<open>
  Offset \<open>-1\<close>, and the spec's own offset 32765 for a four-byte value on the device of
  32768 bytes.
\<close>

theorem failed_bound_check_halts_unchanged_witness:
  "read_offset scenario_config uint32_type [0, 0, 0, 0] (- 1) reset_machine =
     (Inl (Assert_failed [Text ''Invalid offset: '', Num (- 1)]), reset_machine) \<and>
   write_offset scenario_config uint32_type [1, 2, 3, 4] 32765 reset_machine =
     (Inl (Assert_failed [Text ''Source size and offset are too high: '', Num 4,
        Text '' - '', Num 32765]), reset_machine)"
  using failed_bound_check_halts_unchanged
      [of uint32_type scenario_config "- 1" "[0, 0, 0, 0]" reset_machine "[1, 2, 3, 4]"]
    failed_bound_check_halts_unchanged
      [of uint32_type scenario_config 32765 "[0, 0, 0, 0]" reset_machine "[1, 2, 3, 4]"]
  by (simp add: uint32_type_def scenario_config_def size_sram_def)

text \<open>
  The claim as written fails at two inputs. At offset \<open>-1\<close> the message holds the
  offset only: the size 4 is not reported. At offset 2147483647 the sum in the second check
  wraps around to a negative number, the check passes, and the operation does not halt.
\<close>

theorem bound_failure_report_counterexample:
  "fst (read_offset scenario_config uint32_type [0, 0, 0, 0] (- 1) reset_machine) =
     Inl (Assert_failed [Text ''Invalid offset: '', Num (- 1)]) \<and>
   Num (uint (sizeof uint32_type)) \<notin> set [Text ''Invalid offset: '', Num (- 1)] \<and>
   sint (2147483647 :: cint) + uint (sizeof uint32_type) > sint (size_sram scenario_config) \<and>
   fst (write_offset scenario_config uint32_type [1, 2, 3, 4] 2147483647 reset_machine) = Inr ()"
  by (simp add: assertion_defs read_offset_def write_offset_def uint32_type_def
      scenario_config_def size_sram_def)

section \<open>Calls of the raw primitives\<close>

text \<open>
  Where \<open>sizeof(Type) + offset\<close> does not leave the range of \<open>int\<close>, every primitive
  call that \<open>read_offset\<close> and \<open>write_offset\<close> add to the record of accesses is in
  bounds.
\<close>

lemma accessor_calls_in_bounds_without_overflow:
  assumes "0 \<le> sint (sizeof T)" and "sint offset + sint (sizeof T) < 2 ^ 31"
  shows "list_all (access_in_bounds cfg)
           (drop (length (accesses m)) (accesses (snd (read_offset cfg T destination offset m)))) \<and>
         list_all (access_in_bounds cfg)
           (drop (length (accesses m)) (accesses (snd (write_offset cfg T source offset m))))"
proof (cases "0 \<le> sint offset")
  case True
  have "- (2 ^ 31) \<le> (0::int)" by simp
  also have "0 \<le> sint (sizeof T) + sint offset" using assms(1) True by simp
  finally have "sint (sizeof T + offset) = sint (sizeof T) + sint offset"
    using assms(2) by (intro sint_add_exact) (simp_all add: add.commute)
  then show ?thesis
    by (simp add: assertion_defs read_offset_def write_offset_def unsafe_read_def unsafe_write_def
        in_bounds_def add.commute)
next
  case False
  then show ?thesis by (simp add: assertion_defs read_offset_def write_offset_def)
qed

text \<open>
  Claim C3. The layer is to call a primitive only with \<open>0 \<le> offset\<close> and
  \<open>offset + size \<le> size()\<close>, whatever the caller passes. At offset 2147483647 with a
  four-byte type on the device of 32768 bytes both checks of \<open>write_offset\<close> and of
  \<open>read_offset\<close> pass, because \<open>4 + 2147483647\<close> wraps around to \<open>-2147483645\<close>, and
  the primitive is called with that offset, far outside the device.
\<close>

theorem write_offset_int_max_out_of_bounds:
  "fst (write_offset scenario_config uint32_type [1, 2, 3, 4] 2147483647 reset_machine)
     = Inr () \<and>
   accesses (snd (write_offset scenario_config uint32_type [1, 2, 3, 4] 2147483647 reset_machine))
     = [Copy_to_storage 4 2147483647] \<and>
   \<not> access_in_bounds scenario_config (Copy_to_storage 4 2147483647) \<and>
   fst (read_offset scenario_config uint32_type [0, 0, 0, 0] 2147483647 reset_machine)
     = Inr [0, 0, 0, 0] \<and>
   accesses (snd (read_offset scenario_config uint32_type [0, 0, 0, 0] 2147483647 reset_machine))
     = [Copy_from_storage 4 2147483647] \<and>
   \<not> access_in_bounds scenario_config (Copy_from_storage 4 2147483647)"
  by (simp add: assertion_defs read_offset_def write_offset_def uint32_type_def
      scenario_config_def size_sram_def unsafe_write_def unsafe_read_def reset_machine_def
      in_bounds_def eval_nat_numeral)

section \<open>The bus configurator\<close>

text \<open>
  Claim C4, as the code has it by design. From every machine state \<open>init\<close> returns the
  identification token, the object \<open>save_type\<close> of the program image, and performs
  exactly one store, to the wait-control register, of the old value with the configured
  code OR-ed in; the storage bytes and the image are untouched. The wait-state field
  afterwards is the old field OR the part of the code inside the field. When the
  configured code lies inside the wait-state field and the field held no bit outside the
  configured code before the call (in particular when it was clear, as after reset), the
  field equals the configured code afterwards.
\<close>

theorem init_ors_wait_state:
  "fst (init cfg m) = program_image m \<and>
   accesses (snd (init cfg m))
     = accesses m @ [Reg_write (REG_WAITCNT_NV m OR BN_CFG_SRAM_WAIT_STATE cfg)] \<and>
   REG_WAITCNT_NV (snd (init cfg m)) = REG_WAITCNT_NV m OR BN_CFG_SRAM_WAIT_STATE cfg \<and>
   sram (snd (init cfg m)) = sram m \<and>
   program_image (snd (init cfg m)) = program_image m \<and>
   wait_state_field cfg (REG_WAITCNT_NV (snd (init cfg m)))
     = wait_state_field cfg (REG_WAITCNT_NV m) OR wait_state_field cfg (BN_CFG_SRAM_WAIT_STATE cfg) \<and>
   (wait_state_field cfg (BN_CFG_SRAM_WAIT_STATE cfg) = BN_CFG_SRAM_WAIT_STATE cfg \<and>
    wait_state_field cfg (REG_WAITCNT_NV m) OR BN_CFG_SRAM_WAIT_STATE cfg
      = BN_CFG_SRAM_WAIT_STATE cfg
    \<longrightarrow> wait_state_field cfg (REG_WAITCNT_NV (snd (init cfg m))) = BN_CFG_SRAM_WAIT_STATE cfg)"
proof -
  have field: "wait_state_field cfg (REG_WAITCNT_NV m OR BN_CFG_SRAM_WAIT_STATE cfg)
      = wait_state_field cfg (REG_WAITCNT_NV m) OR wait_state_field cfg (BN_CFG_SRAM_WAIT_STATE cfg)"
    by (simp add: wait_state_field_def bit.conj_disj_distrib2)
  have reg: "REG_WAITCNT_NV (snd (init cfg m)) = REG_WAITCNT_NV m OR BN_CFG_SRAM_WAIT_STATE cfg"
    by (simp add: init_def BIT_SET_def Let_def)
  have rest: "fst (init cfg m) = program_image m"
    "accesses (snd (init cfg m))
       = accesses m @ [Reg_write (REG_WAITCNT_NV m OR BN_CFG_SRAM_WAIT_STATE cfg)]"
    "sram (snd (init cfg m)) = sram m"
    "program_image (snd (init cfg m)) = program_image m"
    by (simp_all add: init_def BIT_SET_def Let_def)
  show ?thesis unfolding reg field using rest by simp
qed

text \<open>
  With the code for 2 wait cycles configured: the register after reset; a register with
  the field already at 2 and a bit of another field set; and a register with the field at
  1, where the store and the token are as stated though the field does not end at 2.
\<close>

theorem init_ors_wait_state_witness:
  "wait_state_field scenario_config (BN_CFG_SRAM_WAIT_STATE scenario_config)
     = BN_CFG_SRAM_WAIT_STATE scenario_config \<and>
   wait_state_field scenario_config (REG_WAITCNT_NV reset_machine)
       OR BN_CFG_SRAM_WAIT_STATE scenario_config = BN_CFG_SRAM_WAIT_STATE scenario_config \<and>
   wait_state_field scenario_config (REG_WAITCNT_NV (snd (init scenario_config reset_machine))) = 2 \<and>
   wait_state_field scenario_config (REG_WAITCNT_NV (reset_machine\<lparr>REG_WAITCNT_NV := 0x4012\<rparr>))
       OR BN_CFG_SRAM_WAIT_STATE scenario_config = BN_CFG_SRAM_WAIT_STATE scenario_config \<and>
   wait_state_field scenario_config
     (REG_WAITCNT_NV (snd (init scenario_config (reset_machine\<lparr>REG_WAITCNT_NV := 0x4012\<rparr>)))) = 2 \<and>
   accesses (snd (init scenario_config (reset_machine\<lparr>REG_WAITCNT_NV := 0x4012\<rparr>)))
     = [Reg_write 0x4012] \<and>
   accesses (snd (init scenario_config (reset_machine\<lparr>REG_WAITCNT_NV := 1\<rparr>)))
     = [Reg_write 3] \<and>
   fst (init scenario_config (reset_machine\<lparr>REG_WAITCNT_NV := 1\<rparr>)) = save_type"
proof -
  have code: "BN_CFG_SRAM_WAIT_STATE scenario_config = 2"
    by (simp add: scenario_config_def)
  have inside: "wait_state_field scenario_config (BN_CFG_SRAM_WAIT_STATE scenario_config)
      = BN_CFG_SRAM_WAIT_STATE scenario_config"
    by (simp add: wait_state_field_def scenario_config_def)
  have clear: "wait_state_field scenario_config (REG_WAITCNT_NV reset_machine)
      OR BN_CFG_SRAM_WAIT_STATE scenario_config = BN_CFG_SRAM_WAIT_STATE scenario_config"
    by (simp add: wait_state_field_def scenario_config_def reset_machine_def)
  have same: "wait_state_field scenario_config
        (REG_WAITCNT_NV (reset_machine\<lparr>REG_WAITCNT_NV := 0x4012\<rparr>))
      OR BN_CFG_SRAM_WAIT_STATE scenario_config = BN_CFG_SRAM_WAIT_STATE scenario_config"
    by (simp add: wait_state_field_def scenario_config_def)
  note h0 = init_ors_wait_state [of scenario_config reset_machine]
  note h1 = init_ors_wait_state [of scenario_config "reset_machine\<lparr>REG_WAITCNT_NV := 0x4012\<rparr>"]
  note h2 = init_ors_wait_state [of scenario_config "reset_machine\<lparr>REG_WAITCNT_NV := 1\<rparr>"]
  from h0 inside clear
  have f0: "wait_state_field scenario_config
      (REG_WAITCNT_NV (snd (init scenario_config reset_machine))) = 2"
    unfolding code by blast
  from h1 inside same
  have f1: "wait_state_field scenario_config
      (REG_WAITCNT_NV (snd (init scenario_config (reset_machine\<lparr>REG_WAITCNT_NV := 0x4012\<rparr>)))) = 2"
    unfolding code by blast
  have a1: "accesses (snd (init scenario_config (reset_machine\<lparr>REG_WAITCNT_NV := 0x4012\<rparr>)))
      = [Reg_write 0x4012]"
    unfolding h1 [THEN conjunct2, THEN conjunct1]
    by (simp add: scenario_config_def reset_machine_def)
  have a2: "accesses (snd (init scenario_config (reset_machine\<lparr>REG_WAITCNT_NV := 1\<rparr>)))
      = [Reg_write 3]"
    unfolding h2 [THEN conjunct2, THEN conjunct1]
    by (simp add: scenario_config_def reset_machine_def)
  have t2: "fst (init scenario_config (reset_machine\<lparr>REG_WAITCNT_NV := 1\<rparr>)) = save_type"
    unfolding h2 [THEN conjunct1] by (simp add: reset_machine_def)
  show ?thesis by (intro conjI) (rule inside clear f0 same f1 a1 a2 t2)+
qed

text \<open>
  The claim as written asks for the configured code in the field after \<open>init\<close> from
  every prior register state. With the code 2 configured and the field holding 1 before
  the call, the field holds 3 afterwards.
\<close>

theorem init_field_counterexample:
  "BN_CFG_SRAM_WAIT_STATE scenario_config = 2 \<and>
   wait_state_field scenario_config
     (REG_WAITCNT_NV (snd (init scenario_config (reset_machine\<lparr>REG_WAITCNT_NV := 1\<rparr>)))) = 3"
  by (simp add: init_def BIT_SET_def wait_state_field_def scenario_config_def reset_machine_def)

text \<open>
  Claim C5. \<open>init\<close> is idempotent: a second call in succession leaves the wait-control
  register and the storage bytes as the first call left them and returns the same token;
  the second store writes the value the first one wrote.
\<close>

theorem init_idempotent:
  "REG_WAITCNT_NV (snd (init cfg (snd (init cfg m)))) = REG_WAITCNT_NV (snd (init cfg m)) \<and>
   sram (snd (init cfg (snd (init cfg m)))) = sram (snd (init cfg m)) \<and>
   fst (init cfg (snd (init cfg m))) = fst (init cfg m) \<and>
   accesses (snd (init cfg (snd (init cfg m)))) =
     accesses m @ [Reg_write (REG_WAITCNT_NV (snd (init cfg m))),
                   Reg_write (REG_WAITCNT_NV (snd (init cfg m)))]"
  by (simp add: init_def BIT_SET_def Let_def or.assoc)

text \<open>
  Claim C10. The store of \<open>init\<close> is a bitwise OR: the register afterwards is the
  prior value OR the configured code, so every bit set before the call is still set, and
  the bits outside the configured code are as they were.
\<close>

theorem init_is_bitwise_or:
  "REG_WAITCNT_NV (snd (init cfg m)) = REG_WAITCNT_NV m OR BN_CFG_SRAM_WAIT_STATE cfg \<and>
   (\<forall>n. bit (REG_WAITCNT_NV m) n \<longrightarrow> bit (REG_WAITCNT_NV (snd (init cfg m))) n) \<and>
   REG_WAITCNT_NV (snd (init cfg m)) AND NOT (BN_CFG_SRAM_WAIT_STATE cfg)
     = REG_WAITCNT_NV m AND NOT (BN_CFG_SRAM_WAIT_STATE cfg)"
  by (simp add: init_def BIT_SET_def Let_def bit_or_iff bit.conj_disj_distrib2)

text \<open>
  A register with bits of other fields set, and the code 2 configured.
\<close>

theorem init_is_bitwise_or_witness:
  "bit (REG_WAITCNT_NV (reset_machine\<lparr>REG_WAITCNT_NV := 0x4011\<rparr>)) 14 \<and>
   bit (REG_WAITCNT_NV (snd (init scenario_config (reset_machine\<lparr>REG_WAITCNT_NV := 0x4011\<rparr>)))) 14 \<and>
   REG_WAITCNT_NV (snd (init scenario_config (reset_machine\<lparr>REG_WAITCNT_NV := 0x4011\<rparr>))) = 0x4013"
proof -
  note h = init_is_bitwise_or [of scenario_config "reset_machine\<lparr>REG_WAITCNT_NV := 0x4011\<rparr>"]
  have before: "bit (REG_WAITCNT_NV (reset_machine\<lparr>REG_WAITCNT_NV := 0x4011\<rparr>)) 14"
    by (simp add: bit_iff_odd_drop_bit drop_bit_eq_div)
  from h before
  have after: "bit (REG_WAITCNT_NV (snd (init scenario_config (reset_machine\<lparr>REG_WAITCNT_NV := 0x4011\<rparr>)))) 14"
    by blast
  have val: "REG_WAITCNT_NV (snd (init scenario_config (reset_machine\<lparr>REG_WAITCNT_NV := 0x4011\<rparr>))) = 0x4013"
    unfolding h [THEN conjunct1] by (simp add: scenario_config_def)
  show ?thesis by (intro conjI) (rule before after val)+
qed



section \<open>The accessors without offset\<close>

text \<open>
  Claim C6. \<open>read\<close> gives the same outcome and the same machine state as
  \<open>read_offset\<close> at offset 0, and \<open>write\<close> the same as \<open>write_offset\<close> at offset 0,
  for every type, value and machine state.
\<close>

theorem read_write_are_offset_zero:
  "read cfg T destination m = read_offset cfg T destination 0 m \<and>
   write_sram cfg T source m = write_offset cfg T source 0 m"
  by (simp add: assertion_defs read_def read_offset_def write_sram_def write_offset_def)

text \<open>
  Claim C9. \<open>read\<close> and \<open>write\<close> have no runtime check. For a trivially copyable
  type whose size fits the device they always succeed: \<open>read\<close> returns the
  \<open>sizeof(Type)\<close> bytes of the device from offset 0, \<open>write\<close> stores the
  \<open>sizeof(Type)\<close> bytes of the value from offset 0, and each makes exactly one call of
  its primitive.
\<close>

theorem read_write_unconditional:
  assumes "is_trivially_copyable T" and "uint (sizeof T) \<le> sint (size_sram cfg)"
    and "has_type destination T" and "has_type source T"
  shows "read cfg T destination m =
           (Inr (copy_from_storage (unat (sizeof T)) 0 (sram m)),
            m\<lparr>accesses := accesses m @ [Copy_from_storage (sizeof T) 0]\<rparr>) \<and>
         write_sram cfg T source m =
           (Inr (), m\<lparr>sram := copy_to_storage source 0 (sram m),
                       accesses := accesses m @ [Copy_to_storage (sizeof T) 0]\<rparr>)"
proof -
  have "sint (size_sram cfg) < 2 ^ 31" using sint_lt [of "size_sram cfg"] by simp
  with assms(2) have small: "uint (sizeof T) < 2 ^ 31" by simp
  have fits: "sint (sizeof T) \<le> sint (size_sram cfg)"
    using assms(2) by (simp add: sint_eq_uint_small [OF small])
  have len: "nat (sint (sizeof T)) = unat (sizeof T)" by (rule nat_sint_sizeof [OF small])
  show ?thesis
    using assms(1,3,4) fits
    by (simp add: assertion_defs read_def write_sram_def unsafe_read_def unsafe_write_def has_type_def len)
qed

text \<open>
  A four-byte value on the device of 32768 bytes, from the reset state.
\<close>

theorem read_write_unconditional_witness:
  "is_trivially_copyable uint32_type \<and>
   uint (sizeof uint32_type) \<le> sint (size_sram scenario_config) \<and>
   has_type [9, 9, 9, 9] uint32_type \<and> has_type [1, 2, 3, 4] uint32_type \<and>
   fst (read scenario_config uint32_type [9, 9, 9, 9] reset_machine) = Inr [0, 0, 0, 0] \<and>
   fst (write_sram scenario_config uint32_type [1, 2, 3, 4] reset_machine) = Inr () \<and>
   sram (snd (write_sram scenario_config uint32_type [1, 2, 3, 4] reset_machine)) 3 = 4"
proof -
  have tc: "is_trivially_copyable uint32_type"
    by (simp add: uint32_type_def)
  have fits: "uint (sizeof uint32_type) \<le> sint (size_sram scenario_config)"
    by (simp add: uint32_type_def scenario_config_def size_sram_def)
  have td: "has_type [9, 9, 9, 9] uint32_type" and ts: "has_type [1, 2, 3, 4] uint32_type"
    by (simp_all add: uint32_type_def has_type_def)
  have four: "unat (sizeof uint32_type) = 4"
    by (simp add: uint32_type_def)
  note h = read_write_unconditional [OF tc fits td ts, of reset_machine]
  have r: "fst (read scenario_config uint32_type [9, 9, 9, 9] reset_machine) = Inr [0, 0, 0, 0]"
    unfolding h [THEN conjunct1] four
    by (simp add: reset_machine_def eval_nat_numeral)
  have w: "fst (write_sram scenario_config uint32_type [1, 2, 3, 4] reset_machine) = Inr ()"
    unfolding h [THEN conjunct2] by simp
  have s: "sram (snd (write_sram scenario_config uint32_type [1, 2, 3, 4] reset_machine)) 3 = 4"
    unfolding h [THEN conjunct2] by (simp add: reset_machine_def)
  show ?thesis by (intro conjI) (rule tc fits td ts r w s)+
qed

text \<open>
  Claim C7. A call of \<open>size\<close> always succeeds, returns the configured size of the
  device and leaves the machine as it was, from every machine state. In every program
  every call of \<open>size\<close> returns that same value, wherever it stands. It has no side
  effect: a program with all its calls of \<open>size\<close> left out ends in the same machine
  state and gets the same results from its other calls.
\<close>

theorem size_constant_and_pure:
  "perform cfg Size_call m = (Inr (Size_value (hw_sram_size cfg)), m) \<and>
   list_all (\<lambda>r. r = Inr (Size_value (hw_sram_size cfg)))
     (filter is_size_value (fst (run cfg cs m))) \<and>
   snd (run cfg (filter (\<lambda>c. c \<noteq> Size_call) cs) m) = snd (run cfg cs m) \<and>
   fst (run cfg (filter (\<lambda>c. c \<noteq> Size_call) cs) m)
     = filter (\<lambda>r. \<not> is_size_value r) (fst (run cfg cs m))"
  using run_without_size_calls [of cfg cs m] run_size_values [of cfg cs m]
  by (simp add: size_sram_def)

text \<open>
  A program on the device of 32768 bytes with \<open>size\<close> called at its start, in the
  middle and at its end.
\<close>

theorem size_constant_and_pure_witness:
  "list_all (\<lambda>r. r = Inr (Size_value 32768))
     (filter is_size_value
        (fst (run scenario_config
           [Size_call, Init_call, Write_offset_call uint32_type [0xEF, 0xBE, 0xAD, 0xDE] 100,
            Size_call, Read_offset_call uint32_type [0, 0, 0, 0] 100, Size_call]
           reset_machine))) \<and>
   snd (run scenario_config
          [Init_call, Write_offset_call uint32_type [0xEF, 0xBE, 0xAD, 0xDE] 100,
           Read_offset_call uint32_type [0, 0, 0, 0] 100]
          reset_machine)
   = snd (run scenario_config
           [Size_call, Init_call, Write_offset_call uint32_type [0xEF, 0xBE, 0xAD, 0xDE] 100,
            Size_call, Read_offset_call uint32_type [0, 0, 0, 0] 100, Size_call]
           reset_machine) \<and>
   perform scenario_config Size_call (snd (init scenario_config reset_machine))
   = (Inr (Size_value 32768), snd (init scenario_config reset_machine))"
proof -
  have size_value: "hw_sram_size scenario_config = 32768"
    by (simp add: scenario_config_def)
  have without: "filter (\<lambda>c. c \<noteq> Size_call)
      [Size_call, Init_call, Write_offset_call uint32_type [0xEF, 0xBE, 0xAD, 0xDE] 100,
       Size_call, Read_offset_call uint32_type [0, 0, 0, 0] 100, Size_call]
    = [Init_call, Write_offset_call uint32_type [0xEF, 0xBE, 0xAD, 0xDE] 100,
       Read_offset_call uint32_type [0, 0, 0, 0] 100]"
    by simp
  note h = size_constant_and_pure
    [of scenario_config reset_machine
      "[Size_call, Init_call, Write_offset_call uint32_type [0xEF, 0xBE, 0xAD, 0xDE] 100,
        Size_call, Read_offset_call uint32_type [0, 0, 0, 0] 100, Size_call]",
      unfolded size_value without]
  note k = size_constant_and_pure
    [of scenario_config "snd (init scenario_config reset_machine)" "[]", unfolded size_value]
  show ?thesis
    by (intro conjI)
      (rule h [THEN conjunct2, THEN conjunct1] h [THEN conjunct2, THEN conjunct2, THEN conjunct1]
        k [THEN conjunct1])+
qed

text \<open>
  The results of such a program, computed.
\<close>

lemma scenario_program_results:
  "fst (run scenario_config
        [Init_call, Write_offset_call uint32_type [0xEF, 0xBE, 0xAD, 0xDE] 100, Size_call,
         Read_offset_call uint32_type [0, 0, 0, 0] 100, Init_call]
        reset_machine)
   = [Inr (Token save_type), Inr Void, Inr (Size_value 32768),
      Inr (Bytes [0xEF, 0xBE, 0xAD, 0xDE]), Inr (Token save_type)]"
  by (simp add: init_def Let_def read_offset_def write_offset_def assertion_defs
      unsafe_read_def unsafe_write_def uint32_type_def scenario_config_def size_sram_def
      reset_machine_def eval_nat_numeral)

end
